theory Spec2Isabelle
  imports Complex_Main "HOL-Library.Word" "HOL-Library.Log_Nat"
begin

section \<open>TinyMathAPI: fixed-size vectors and matrices\<close>

text \<open>
  A shallow embedding of \<^verbatim>\<open>Vector.hpp\<close> and \<^verbatim>\<open>Matrix.hpp\<close>.

  \<^item> The template parameters \<^verbatim>\<open>N\<close>, \<^verbatim>\<open>Rows\<close> and \<^verbatim>\<open>Cols\<close> are the first arguments of
    every function. A \<^verbatim>\<open>std::array<T, N>\<close> is a list; that it has exactly \<^verbatim>\<open>N\<close> elements
    is the predicate \<open>Vector_ok\<close> (\<open>Matrix_ok\<close> for the rows of a matrix).
  \<^item> The scalar type \<^verbatim>\<open>T\<close> is a type variable \<open>'a\<close> with the operations a function uses
    (\<open>'a::{zero,plus,times}\<close> and the like) and no laws: what a theorem needs of the
    arithmetic is a hypothesis of the theorem. The integers and the \<open>n\<close>-bit words are
    instances with exact arithmetic; the type \<open>double\<close> below is an instance with the
    rounding of IEEE 754. The scalar type's division and \<^verbatim>\<open>std::sqrt\<close> are parameters
    (\<open>dv\<close>, \<open>sqrtT\<close>) of the functions that call them.
  \<^item> A \<^verbatim>\<open>static_assert\<close> that does not hold, a member access that names no member, an
    array index at or past the array's size and a division by zero are values of the
    type \<open>failure\<close>: the first two are programs the compiler rejects, the third is
    undefined behaviour, the fourth is undefined behaviour for an integer \<^verbatim>\<open>T\<close> and an
    infinity or a NaN for a floating-point \<^verbatim>\<open>T\<close>.
  \<^item> The compound assignments take their argument by reference and write the receiver
    in place, so what a reference argument refers to is part of the embedding:
    an object of its own, or (a part of) the receiver.
\<close>

datatype failure = StaticAssert | NoSuchMember | OutOfRange | ZeroDivisor

text \<open>
  A counted loop whose body can fail: \<^verbatim>\<open>for (i = ...) body\<close>, over the indices in order,
  stopping at the first failure.
\<close>

fun for_loop :: "nat list \<Rightarrow> (nat \<Rightarrow> 's \<Rightarrow> failure + 's) \<Rightarrow> 's \<Rightarrow> failure + 's" where
  "for_loop [] body s = Inr s"
| "for_loop (i # js) body s =
     (case body i s of Inl e \<Rightarrow> Inl e | Inr s' \<Rightarrow> for_loop js body s')"

subsection \<open>Vector.hpp\<close>

record 'a Vector =
  data :: "'a list"

definition Vector_ok :: "nat \<Rightarrow> 'a Vector \<Rightarrow> bool" where
  "Vector_ok N v = (length (Vector.data v) = N)"

text \<open>\<^verbatim>\<open>Vector() { data.fill(0); }\<close>\<close>

definition Vector_default :: "nat \<Rightarrow> 'a::zero Vector" where
  "Vector_default N = \<lparr>Vector.data = replicate N 0\<rparr>"

text \<open>
  \<^verbatim>\<open>static_cast<int>(values.size())\<close>: the size read as a 32-bit two's complement value.
\<close>

definition static_cast_int :: "nat \<Rightarrow> int" where
  "static_cast_int n = sint (word_of_nat n :: 32 word)"

text \<open>
  \<^verbatim>\<open>std::copy_n(first, count, result)\<close>: the first \<open>count\<close> elements of the source over
  the first \<open>count\<close> elements of the destination; nothing for a count that is not positive.
\<close>

definition copy_n :: "'a list \<Rightarrow> int \<Rightarrow> 'a list \<Rightarrow> 'a list" where
  "copy_n src count dst =
     (if count \<le> 0 then dst else take (nat count) src @ drop (nat count) dst)"

text \<open>
  \<^verbatim>\<open>Vector(std::initializer_list<T> values)\<close>. The member \<^verbatim>\<open>data{}\<close> is value-initialised
  (all zero) before the body copies \<^verbatim>\<open>std::min(N, static_cast<int>(values.size()))\<close> values.
\<close>

definition Vector_init :: "nat \<Rightarrow> 'a list \<Rightarrow> 'a::zero Vector" where
  "Vector_init N values =
     \<lparr>Vector.data =
        copy_n values (min (int N) (static_cast_int (length values))) (replicate N 0)\<rparr>"

text \<open>
  What a \<^verbatim>\<open>const Vector& other\<close> of a compound assignment refers to: a vector of its own,
  or the receiver itself (\<^verbatim>\<open>v += v\<close>). \<open>other_data d other\<close> is \<^verbatim>\<open>other.data\<close> while the
  receiver's array holds \<open>d\<close>.
\<close>

datatype 'a vector_arg = Distinct "'a Vector" | Receiver

fun other_data :: "'a list \<Rightarrow> 'a vector_arg \<Rightarrow> 'a list" where
  "other_data d (Distinct v) = Vector.data v"
| "other_data d Receiver = d"

text \<open>
  What a \<^verbatim>\<open>const T& scalar\<close> of a compound assignment refers to: an object outside the
  receiver, or the receiver's own component \<open>k\<close> (\<^verbatim>\<open>v -= v[k]\<close>; the non-const
  \<^verbatim>\<open>operator[]\<close> returns \<^verbatim>\<open>T&\<close>). \<open>scalar_value d scalar\<close> is what the reference reads while
  the receiver's array holds \<open>d\<close>.
\<close>

datatype 'a scalar_arg = Detached 'a | Component nat

fun scalar_value :: "'a list \<Rightarrow> 'a scalar_arg \<Rightarrow> 'a" where
  "scalar_value d (Detached c) = c"
| "scalar_value d (Component k) = d ! k"

text \<open>
  The four private combinators. \<^verbatim>\<open>std::transform\<close> visits the indices \<open>0 .. N-1\<close> in
  order and assigns \<^verbatim>\<open>op\<close> of the element(s) read at an index to the destination at that
  index. \<open>Vector_apply\<close> and \<open>Vector_apply_scalar\<close> write a fresh \<^verbatim>\<open>Vector result\<close>, which no
  argument can refer to, so their arguments are plain values; \<open>Vector_apply_self\<close> and
  \<open>Vector_apply_scalar_self\<close> write \<^verbatim>\<open>data\<close> itself, and the lambda of the scalar forms
  captures \<^verbatim>\<open>scalar\<close> by reference.
\<close>

definition Vector_apply ::
  "nat \<Rightarrow> 'a Vector \<Rightarrow> 'a Vector \<Rightarrow> ('a \<Rightarrow> 'a \<Rightarrow> 'a) \<Rightarrow> 'a::zero Vector" where
  "Vector_apply N this other op =
     \<lparr>Vector.data =
        fold (\<lambda>i result. result[i := op (Vector.data this ! i) (Vector.data other ! i)])
          [0..<N] (Vector.data (Vector_default N))\<rparr>"

definition Vector_apply_self ::
  "nat \<Rightarrow> 'a Vector \<Rightarrow> 'a vector_arg \<Rightarrow> ('a \<Rightarrow> 'a \<Rightarrow> 'a) \<Rightarrow> 'a Vector" where
  "Vector_apply_self N this other op =
     \<lparr>Vector.data =
        fold (\<lambda>i d. d[i := op (d ! i) (other_data d other ! i)]) [0..<N] (Vector.data this)\<rparr>"

definition Vector_apply_scalar ::
  "nat \<Rightarrow> 'a Vector \<Rightarrow> 'a \<Rightarrow> ('a \<Rightarrow> 'a \<Rightarrow> 'a) \<Rightarrow> 'a::zero Vector" where
  "Vector_apply_scalar N this scalar op =
     \<lparr>Vector.data =
        fold (\<lambda>i result. result[i := op (Vector.data this ! i) scalar])
          [0..<N] (Vector.data (Vector_default N))\<rparr>"

definition Vector_apply_scalar_self ::
  "nat \<Rightarrow> 'a Vector \<Rightarrow> 'a scalar_arg \<Rightarrow> ('a \<Rightarrow> 'a \<Rightarrow> 'a) \<Rightarrow> 'a Vector" where
  "Vector_apply_scalar_self N this scalar op =
     \<lparr>Vector.data =
        fold (\<lambda>i d. d[i := op (d ! i) (scalar_value d scalar)]) [0..<N] (Vector.data this)\<rparr>"

text \<open>
  Element-wise vector operations: \<^verbatim>\<open>operator+ - *\<close> and \<^verbatim>\<open>operator+= -= *=\<close>. Of the
  division operators the embedding has \<^verbatim>\<open>operator/(const T&)\<close>, which \<^verbatim>\<open>normalized\<close> calls.
\<close>

definition Vector_plus :: "nat \<Rightarrow> 'a Vector \<Rightarrow> 'a Vector \<Rightarrow> 'a::{zero,plus} Vector" where
  "Vector_plus N this other = Vector_apply N this other (+)"

definition Vector_minus :: "nat \<Rightarrow> 'a Vector \<Rightarrow> 'a Vector \<Rightarrow> 'a::{zero,minus} Vector" where
  "Vector_minus N this other = Vector_apply N this other (-)"

definition Vector_times :: "nat \<Rightarrow> 'a Vector \<Rightarrow> 'a Vector \<Rightarrow> 'a::{zero,times} Vector" where
  "Vector_times N this other = Vector_apply N this other (*)"

definition Vector_plus_assign ::
  "nat \<Rightarrow> 'a Vector \<Rightarrow> 'a vector_arg \<Rightarrow> 'a::plus Vector" where
  "Vector_plus_assign N this other = Vector_apply_self N this other (+)"

definition Vector_minus_assign ::
  "nat \<Rightarrow> 'a Vector \<Rightarrow> 'a vector_arg \<Rightarrow> 'a::minus Vector" where
  "Vector_minus_assign N this other = Vector_apply_self N this other (-)"

definition Vector_times_assign ::
  "nat \<Rightarrow> 'a Vector \<Rightarrow> 'a vector_arg \<Rightarrow> 'a::times Vector" where
  "Vector_times_assign N this other = Vector_apply_self N this other (*)"

text \<open>Scalar operations.\<close>

definition Vector_plus_scalar :: "nat \<Rightarrow> 'a Vector \<Rightarrow> 'a \<Rightarrow> 'a::{zero,plus} Vector" where
  "Vector_plus_scalar N this scalar = Vector_apply_scalar N this scalar (+)"

definition Vector_minus_scalar :: "nat \<Rightarrow> 'a Vector \<Rightarrow> 'a \<Rightarrow> 'a::{zero,minus} Vector" where
  "Vector_minus_scalar N this scalar = Vector_apply_scalar N this scalar (-)"

definition Vector_times_scalar :: "nat \<Rightarrow> 'a Vector \<Rightarrow> 'a \<Rightarrow> 'a::{zero,times} Vector" where
  "Vector_times_scalar N this scalar = Vector_apply_scalar N this scalar (*)"

text \<open>
  \<^verbatim>\<open>operator/(const T& scalar)\<close> is \<^verbatim>\<open>apply_scalar(scalar, std::divides<>())\<close>. \<open>dv\<close> is the
  scalar type's division, used at divisors other than zero only; \<open>divides\<close> is
  \<^verbatim>\<open>std::divides\<close>, whose quotient by zero is the failure \<open>ZeroDivisor\<close>.
  \<open>Vector_apply_scalar_partial\<close> is the loop of \<^verbatim>\<open>apply_scalar\<close> for an \<^verbatim>\<open>op\<close> that can fail:
  the same assignments in the same order, stopping at the first failure. For an \<^verbatim>\<open>op\<close>
  that cannot fail it is \<open>Vector_apply_scalar\<close>.
\<close>

definition divides :: "('a \<Rightarrow> 'a \<Rightarrow> 'a) \<Rightarrow> 'a::zero \<Rightarrow> 'a \<Rightarrow> failure + 'a" where
  "divides dv x y = (if y = 0 then Inl ZeroDivisor else Inr (dv x y))"

definition Vector_apply_scalar_partial ::
  "nat \<Rightarrow> 'a Vector \<Rightarrow> 'a \<Rightarrow> ('a \<Rightarrow> 'a \<Rightarrow> failure + 'a) \<Rightarrow> failure + 'a::zero Vector" where
  "Vector_apply_scalar_partial N this scalar op =
     (case
        for_loop [0..<N] (\<lambda>i result.
          case op (Vector.data this ! i) scalar of
            Inl e \<Rightarrow> Inl e
          | Inr v \<Rightarrow> Inr (result[i := v]))
          (Vector.data (Vector_default N))
      of Inl e \<Rightarrow> Inl e
       | Inr result \<Rightarrow> Inr \<lparr>Vector.data = result\<rparr>)"

definition Vector_divide_scalar ::
  "('a \<Rightarrow> 'a \<Rightarrow> 'a) \<Rightarrow> nat \<Rightarrow> 'a Vector \<Rightarrow> 'a \<Rightarrow> failure + 'a::zero Vector" where
  "Vector_divide_scalar dv N this scalar =
     Vector_apply_scalar_partial N this scalar (divides dv)"

definition Vector_plus_assign_scalar ::
  "nat \<Rightarrow> 'a Vector \<Rightarrow> 'a scalar_arg \<Rightarrow> 'a::plus Vector" where
  "Vector_plus_assign_scalar N this scalar = Vector_apply_scalar_self N this scalar (+)"

definition Vector_minus_assign_scalar ::
  "nat \<Rightarrow> 'a Vector \<Rightarrow> 'a scalar_arg \<Rightarrow> 'a::minus Vector" where
  "Vector_minus_assign_scalar N this scalar = Vector_apply_scalar_self N this scalar (-)"

definition Vector_times_assign_scalar ::
  "nat \<Rightarrow> 'a Vector \<Rightarrow> 'a scalar_arg \<Rightarrow> 'a::times Vector" where
  "Vector_times_assign_scalar N this scalar = Vector_apply_scalar_self N this scalar (*)"

text \<open>Vector utilities.\<close>

definition Vector_dot :: "nat \<Rightarrow> 'a Vector \<Rightarrow> 'a Vector \<Rightarrow> 'a::{zero,plus,times}" where
  "Vector_dot N this other =
     fold (\<lambda>i result. result + Vector.data this ! i * Vector.data other ! i) [0..<N] 0"

text \<open>
  \<^verbatim>\<open>magnitude\<close> and \<^verbatim>\<open>normalized\<close>. \<open>sqrtT\<close> is \<^verbatim>\<open>std::sqrt\<close> followed by the conversion of
  its result to the return type \<^verbatim>\<open>T\<close>.
\<close>

definition Vector_magnitude ::
  "('a \<Rightarrow> 'a) \<Rightarrow> nat \<Rightarrow> 'a Vector \<Rightarrow> 'a::{zero,plus,times}" where
  "Vector_magnitude sqrtT N this = sqrtT (Vector_dot N this this)"

definition Vector_normalized ::
  "('a \<Rightarrow> 'a) \<Rightarrow> ('a \<Rightarrow> 'a \<Rightarrow> 'a) \<Rightarrow> nat \<Rightarrow> 'a Vector \<Rightarrow>
     failure + 'a::{zero,plus,times,ord} Vector" where
  "Vector_normalized sqrtT dv N this =
     (let mag = Vector_magnitude sqrtT N this
      in if mag > 0 then Vector_divide_scalar dv N this mag else Inr this)"


definition Vector_lerp ::
  "nat \<Rightarrow> 'a Vector \<Rightarrow> 'a Vector \<Rightarrow> 'a \<Rightarrow> 'a::{zero,plus,minus,times} Vector" where
  "Vector_lerp N start end' t =
     Vector_plus N start (Vector_times_scalar N (Vector_minus N end' start) t)"

text \<open>\<^verbatim>\<open>operator==\<close> and the unary \<^verbatim>\<open>operator-\<close> (\<^verbatim>\<open>*this * -1\<close>).\<close>

definition Vector_equal :: "'a Vector \<Rightarrow> 'a Vector \<Rightarrow> bool" where
  "Vector_equal this other = (Vector.data this = Vector.data other)"


subsection \<open>Matrix.hpp\<close>

record 'a Matrix =
  data :: "'a list list"

definition Matrix_ok :: "nat \<Rightarrow> nat \<Rightarrow> 'a Matrix \<Rightarrow> bool" where
  "Matrix_ok Rows Cols m =
     (length (Matrix.data m) = Rows \<and> list_all (\<lambda>row. length row = Cols) (Matrix.data m))"

text \<open>\<^verbatim>\<open>Matrix() { for (auto& row : data) row.fill(0); }\<close>\<close>

definition Matrix_default :: "nat \<Rightarrow> nat \<Rightarrow> 'a::zero Matrix" where
  "Matrix_default Rows Cols = \<lparr>Matrix.data = replicate Rows (replicate Cols 0)\<rparr>"

text \<open>
  \<^verbatim>\<open>m[i][j] = v\<close>. \<open>set_entry\<close> is the assignment at indices known to be in range;
  \<open>store_entry\<close> is the assignment into a \<^verbatim>\<open>Matrix<T, Rows, Cols>\<close> at indices that need not
  be: \<^verbatim>\<open>operator[]\<close> of \<^verbatim>\<open>std::array\<close> does not check, and an index at or past the size is
  undefined behaviour.
\<close>

definition set_entry :: "'a list list \<Rightarrow> nat \<Rightarrow> nat \<Rightarrow> 'a \<Rightarrow> 'a list list" where
  "set_entry m i j v = m[i := (m ! i)[j := v]]"

definition store_entry ::
  "nat \<Rightarrow> nat \<Rightarrow> 'a list list \<Rightarrow> nat \<Rightarrow> nat \<Rightarrow> 'a \<Rightarrow> failure + 'a list list" where
  "store_entry Rows Cols m i j v =
     (if i < Rows \<and> j < Cols then Inr (set_entry m i j v) else Inl OutOfRange)"

text \<open>
  What the reference arguments of the compound assignments refer to, as for vectors:
  \<^verbatim>\<open>const Matrix& other\<close> is a matrix of its own or the receiver (\<^verbatim>\<open>m += m\<close>), and
  \<^verbatim>\<open>const T& scalar\<close> is an object outside the receiver or the receiver's own entry
  (\<^verbatim>\<open>m += m[i][j]\<close>).
\<close>

datatype 'a matrix_arg = DistinctM "'a Matrix" | ReceiverM

fun other_rows :: "'a list list \<Rightarrow> 'a matrix_arg \<Rightarrow> 'a list list" where
  "other_rows d (DistinctM m) = Matrix.data m"
| "other_rows d ReceiverM = d"

datatype 'a entry_arg = DetachedM 'a | Entry nat nat

fun entry_value :: "'a list list \<Rightarrow> 'a entry_arg \<Rightarrow> 'a" where
  "entry_value d (DetachedM c) = c"
| "entry_value d (Entry i j) = d ! i ! j"

text \<open>
  The four private combinators: two nested counted loops over \<open>i < Rows\<close>, \<open>j < Cols\<close>.
  All three matrices have the type \<^verbatim>\<open>Matrix<T, Rows, Cols>\<close>, so every index is in range.
\<close>

definition Matrix_apply ::
  "nat \<Rightarrow> nat \<Rightarrow> 'a Matrix \<Rightarrow> 'a Matrix \<Rightarrow> ('a \<Rightarrow> 'a \<Rightarrow> 'a) \<Rightarrow> 'a::zero Matrix" where
  "Matrix_apply Rows Cols this other op =
     \<lparr>Matrix.data =
        fold (\<lambda>i result.
          fold (\<lambda>j result.
            set_entry result i j (op (Matrix.data this ! i ! j) (Matrix.data other ! i ! j)))
            [0..<Cols] result)
          [0..<Rows] (Matrix.data (Matrix_default Rows Cols))\<rparr>"

definition Matrix_apply_self ::
  "nat \<Rightarrow> nat \<Rightarrow> 'a Matrix \<Rightarrow> 'a matrix_arg \<Rightarrow> ('a \<Rightarrow> 'a \<Rightarrow> 'a) \<Rightarrow> 'a Matrix" where
  "Matrix_apply_self Rows Cols this other op =
     \<lparr>Matrix.data =
        fold (\<lambda>i d.
          fold (\<lambda>j d. set_entry d i j (op (d ! i ! j) (other_rows d other ! i ! j)))
            [0..<Cols] d)
          [0..<Rows] (Matrix.data this)\<rparr>"

definition Matrix_apply_scalar ::
  "nat \<Rightarrow> nat \<Rightarrow> 'a Matrix \<Rightarrow> 'a \<Rightarrow> ('a \<Rightarrow> 'a \<Rightarrow> 'a) \<Rightarrow> 'a::zero Matrix" where
  "Matrix_apply_scalar Rows Cols this scalar op =
     \<lparr>Matrix.data =
        fold (\<lambda>i result.
          fold (\<lambda>j result. set_entry result i j (op (Matrix.data this ! i ! j) scalar))
            [0..<Cols] result)
          [0..<Rows] (Matrix.data (Matrix_default Rows Cols))\<rparr>"

definition Matrix_apply_scalar_self ::
  "nat \<Rightarrow> nat \<Rightarrow> 'a Matrix \<Rightarrow> 'a entry_arg \<Rightarrow> ('a \<Rightarrow> 'a \<Rightarrow> 'a) \<Rightarrow> 'a Matrix" where
  "Matrix_apply_scalar_self Rows Cols this scalar op =
     \<lparr>Matrix.data =
        fold (\<lambda>i d.
          fold (\<lambda>j d. set_entry d i j (op (d ! i ! j) (entry_value d scalar)))
            [0..<Cols] d)
          [0..<Rows] (Matrix.data this)\<rparr>"

text \<open>
  The names a class member access \<^verbatim>\<open>m.name\<close> on a \<^verbatim>\<open>Matrix\<close> can find: the data member
  and the named member functions. The template parameters \<^verbatim>\<open>T\<close>, \<^verbatim>\<open>Rows\<close> and \<^verbatim>\<open>Cols\<close> are
  not members. \<open>member_access members name v\<close> is the access to a member that would hold
  \<open>v\<close>.
\<close>

definition Matrix_members :: "string list" where
  "Matrix_members =
     [''data'', ''transpose'', ''transform'', ''print'', ''apply'', ''apply_self'',
      ''apply_scalar'', ''apply_scalar_self'', ''multiply'']"

definition member_access :: "string list \<Rightarrow> string \<Rightarrow> 'v \<Rightarrow> failure + 'v" where
  "member_access members name v = (if name \<in> set members then Inr v else Inl NoSuchMember)"

text \<open>
  The three nested loops of \<^verbatim>\<open>multiply\<close>, with the bound of the middle loop as the
  argument \<open>other_Cols\<close>. For indices in range they are plain assignments.
\<close>

definition Matrix_multiply_loops ::
  "nat \<Rightarrow> nat \<Rightarrow> nat \<Rightarrow> 'a Matrix \<Rightarrow> 'a Matrix \<Rightarrow> 'a::{zero,plus,times} Matrix" where
  "Matrix_multiply_loops Rows Cols other_Cols this other =
     \<lparr>Matrix.data =
        fold (\<lambda>i result.
          fold (\<lambda>j result.
            fold (\<lambda>k result.
              set_entry result i j
                (result ! i ! j + Matrix.data this ! i ! k * Matrix.data other ! k ! j))
              [0..<Cols] (set_entry result i j 0))
            [0..<other_Cols] result)
          [0..<Rows] (Matrix.data (Matrix_default Rows Cols))\<rparr>"

text \<open>
  \<^verbatim>\<open>multiply\<close>: \<^verbatim>\<open>static_assert(Cols == Rows, ...)\<close>, then the loops. The bound of the middle
  loop is written \<^verbatim>\<open>other.Cols\<close>, a member access on a \<^verbatim>\<open>Matrix\<close>: it names no member, so
  every instantiation of \<^verbatim>\<open>multiply\<close> is rejected by the compiler.
\<close>

definition Matrix_multiply ::
  "nat \<Rightarrow> nat \<Rightarrow> 'a Matrix \<Rightarrow> 'a Matrix \<Rightarrow> failure + 'a::{zero,plus,times} Matrix" where
  "Matrix_multiply Rows Cols this other =
     (if Cols \<noteq> Rows then Inl StaticAssert
      else
        case member_access Matrix_members ''Cols'' Cols of
          Inl e \<Rightarrow> Inl e
        | Inr other_Cols \<Rightarrow> Inr (Matrix_multiply_loops Rows Cols other_Cols this other))"

text \<open>Element-wise matrix operations; \<^verbatim>\<open>operator*\<close> of two matrices is \<^verbatim>\<open>multiply\<close>.\<close>

definition Matrix_plus ::
  "nat \<Rightarrow> nat \<Rightarrow> 'a Matrix \<Rightarrow> 'a Matrix \<Rightarrow> 'a::{zero,plus} Matrix" where
  "Matrix_plus Rows Cols this other = Matrix_apply Rows Cols this other (+)"

definition Matrix_minus ::
  "nat \<Rightarrow> nat \<Rightarrow> 'a Matrix \<Rightarrow> 'a Matrix \<Rightarrow> 'a::{zero,minus} Matrix" where
  "Matrix_minus Rows Cols this other = Matrix_apply Rows Cols this other (-)"

definition Matrix_times ::
  "nat \<Rightarrow> nat \<Rightarrow> 'a Matrix \<Rightarrow> 'a Matrix \<Rightarrow> failure + 'a::{zero,plus,times} Matrix" where
  "Matrix_times Rows Cols this other = Matrix_multiply Rows Cols this other"

definition Matrix_plus_assign ::
  "nat \<Rightarrow> nat \<Rightarrow> 'a Matrix \<Rightarrow> 'a matrix_arg \<Rightarrow> 'a::plus Matrix" where
  "Matrix_plus_assign Rows Cols this other = Matrix_apply_self Rows Cols this other (+)"

definition Matrix_minus_assign ::
  "nat \<Rightarrow> nat \<Rightarrow> 'a Matrix \<Rightarrow> 'a matrix_arg \<Rightarrow> 'a::minus Matrix" where
  "Matrix_minus_assign Rows Cols this other = Matrix_apply_self Rows Cols this other (-)"

text \<open>
  \<^verbatim>\<open>operator*=\<close> is \<^verbatim>\<open>*this = multiply(other)\<close>: what \<^verbatim>\<open>multiply\<close> returns for the receiver
  as it is at the call, then assigned.
\<close>

definition Matrix_times_assign ::
  "nat \<Rightarrow> nat \<Rightarrow> 'a Matrix \<Rightarrow> 'a matrix_arg \<Rightarrow> failure + 'a::{zero,plus,times} Matrix" where
  "Matrix_times_assign Rows Cols this other =
     Matrix_multiply Rows Cols this
       (case other of DistinctM m \<Rightarrow> m | ReceiverM \<Rightarrow> this)"

text \<open>Scalar operations.\<close>

definition Matrix_plus_scalar ::
  "nat \<Rightarrow> nat \<Rightarrow> 'a Matrix \<Rightarrow> 'a \<Rightarrow> 'a::{zero,plus} Matrix" where
  "Matrix_plus_scalar Rows Cols this scalar = Matrix_apply_scalar Rows Cols this scalar (+)"

definition Matrix_minus_scalar ::
  "nat \<Rightarrow> nat \<Rightarrow> 'a Matrix \<Rightarrow> 'a \<Rightarrow> 'a::{zero,minus} Matrix" where
  "Matrix_minus_scalar Rows Cols this scalar = Matrix_apply_scalar Rows Cols this scalar (-)"

definition Matrix_times_scalar ::
  "nat \<Rightarrow> nat \<Rightarrow> 'a Matrix \<Rightarrow> 'a \<Rightarrow> 'a::{zero,times} Matrix" where
  "Matrix_times_scalar Rows Cols this scalar = Matrix_apply_scalar Rows Cols this scalar (*)"

definition Matrix_plus_assign_scalar ::
  "nat \<Rightarrow> nat \<Rightarrow> 'a Matrix \<Rightarrow> 'a entry_arg \<Rightarrow> 'a::plus Matrix" where
  "Matrix_plus_assign_scalar Rows Cols this scalar =
     Matrix_apply_scalar_self Rows Cols this scalar (+)"

definition Matrix_minus_assign_scalar ::
  "nat \<Rightarrow> nat \<Rightarrow> 'a Matrix \<Rightarrow> 'a entry_arg \<Rightarrow> 'a::minus Matrix" where
  "Matrix_minus_assign_scalar Rows Cols this scalar =
     Matrix_apply_scalar_self Rows Cols this scalar (-)"

definition Matrix_times_assign_scalar ::
  "nat \<Rightarrow> nat \<Rightarrow> 'a Matrix \<Rightarrow> 'a entry_arg \<Rightarrow> 'a::times Matrix" where
  "Matrix_times_assign_scalar Rows Cols this scalar =
     Matrix_apply_scalar_self Rows Cols this scalar (*)"

text \<open>
  \<^verbatim>\<open>transpose\<close>. The local \<^verbatim>\<open>Matrix result\<close> has the receiver's own type
  \<^verbatim>\<open>Matrix<T, Rows, Cols>\<close>, and the loops assign \<^verbatim>\<open>result[j][i]\<close> for \<open>i < Rows\<close>, \<open>j < Cols\<close>:
  the row index of the assignment runs over the columns.
\<close>

definition Matrix_transpose :: "nat \<Rightarrow> nat \<Rightarrow> 'a Matrix \<Rightarrow> failure + 'a::zero Matrix" where
  "Matrix_transpose Rows Cols this =
     (case
        for_loop [0..<Rows] (\<lambda>i result.
          for_loop [0..<Cols] (\<lambda>j result.
            store_entry Rows Cols result j i (Matrix.data this ! i ! j))
            result)
          (Matrix.data (Matrix_default Rows Cols))
      of Inl e \<Rightarrow> Inl e
       | Inr result \<Rightarrow> Inr \<lparr>Matrix.data = result\<rparr>)"

text \<open>
  \<^verbatim>\<open>transform\<close>: \<^verbatim>\<open>static_assert(Rows == N, ...)\<close> for a \<^verbatim>\<open>Vector<U, N>\<close>; the result is a
  \<^verbatim>\<open>Vector<U, N>\<close>. The inner loop reads \<^verbatim>\<open>vec[j]\<close> for \<open>j < Cols\<close> from an array of \<open>N\<close>
  elements.
\<close>

definition Matrix_transform ::
  "nat \<Rightarrow> nat \<Rightarrow> 'a Matrix \<Rightarrow> nat \<Rightarrow> 'a Vector \<Rightarrow> failure + 'a::{zero,plus,times} Vector" where
  "Matrix_transform Rows Cols this N vec =
     (if Rows \<noteq> N then Inl StaticAssert
      else
        case
          for_loop [0..<Rows] (\<lambda>i result.
            for_loop [0..<Cols] (\<lambda>j result.
              if j < N
              then Inr (result[i := result ! i + Matrix.data this ! i ! j * Vector.data vec ! j])
              else Inl OutOfRange)
              (result[i := 0]))
            (Vector.data (Vector_default N))
        of Inl e \<Rightarrow> Inl e
         | Inr result \<Rightarrow> Inr \<lparr>Vector.data = result\<rparr>)"

definition Matrix_equal :: "'a Matrix \<Rightarrow> 'a Matrix \<Rightarrow> bool" where
  "Matrix_equal this other = (Matrix.data this = Matrix.data other)"

subsection \<open>The scalar type double\<close>

text \<open>
  The values of an IEEE 754 binary64 number. Every finite one is a whole multiple of
  \<open>2^-1074\<close>, and \<open>Finite n\<close> is the number \<open>n * 2^-1074\<close>: \<open>1.0\<close> is \<open>Finite (2^1074)\<close>.
  The two zeros are one value, as \<^verbatim>\<open>==\<close> has them. On the finite values \<^verbatim>\<open>==\<close> is
  equality; \<open>NaN\<close> is the one value that \<^verbatim>\<open>==\<close> does not hold of itself.
\<close>

datatype double = Finite int | PosInf | NegInf | NaN

text \<open>
  Rounding to nearest, ties to even, of the exact number \<open>p * 2^-(1074 + s)\<close>: the
  53 leading bits are kept, and no bit below \<open>2^-1074\<close>; a result of \<open>2^1024\<close> or more is
  an infinity.
\<close>

definition round_to_double :: "nat \<Rightarrow> int \<Rightarrow> double" where
  "round_to_double s p =
     (let a = \<bar>p\<bar>;
          k = max s (nat (bitlen a - 53));
          q = a div 2 ^ k;
          r = a mod 2 ^ k;
          q' = (if 2 ^ k < 2 * r \<or> (2 * r = 2 ^ k \<and> odd q) then q + 1 else q);
          n = q' * 2 ^ (k - s)
      in if 2 ^ 2098 \<le> n then (if 0 < p then PosInf else NegInf) else Finite (sgn p * n))"

fun negate :: "double \<Rightarrow> double" where
  "negate (Finite n) = Finite (- n)"
| "negate PosInf = NegInf"
| "negate NegInf = PosInf"
| "negate NaN = NaN"

instantiation double :: "{zero,one,plus,minus,times}"
begin

definition zero_double :: double where
  "zero_double = Finite 0"

definition one_double :: double where
  "one_double = Finite (2 ^ 1074)"

fun plus_double :: "double \<Rightarrow> double \<Rightarrow> double" where
  "plus_double NaN y = NaN"
| "plus_double x NaN = NaN"
| "plus_double PosInf NegInf = NaN"
| "plus_double NegInf PosInf = NaN"
| "plus_double PosInf y = PosInf"
| "plus_double x PosInf = PosInf"
| "plus_double NegInf y = NegInf"
| "plus_double x NegInf = NegInf"
| "plus_double (Finite m) (Finite n) = round_to_double 0 (m + n)"

definition minus_double :: "double \<Rightarrow> double \<Rightarrow> double" where
  "minus_double x y = x + negate y"

fun times_double :: "double \<Rightarrow> double \<Rightarrow> double" where
  "times_double NaN y = NaN"
| "times_double x NaN = NaN"
| "times_double (Finite m) (Finite n) = round_to_double 1074 (m * n)"
| "times_double (Finite m) y = (if m = 0 then NaN else if 0 < m then y else negate y)"
| "times_double x (Finite n) = (if n = 0 then NaN else if 0 < n then x else negate x)"
| "times_double x y = (if x = y then PosInf else NegInf)"

instance ..

end

text \<open>
  Two values: the \<^verbatim>\<open>double\<close> nearest to \<open>0.1\<close>, which is \<open>3602879701896397 * 2^-55\<close>, and
  \<open>1e16\<close>, which is \<open>10^16\<close> exactly.
\<close>

definition double_0_1 :: double where
  "double_0_1 = Finite (3602879701896397 * 2 ^ 1019)"

definition double_1e16 :: double where
  "double_1e16 = Finite (10 ^ 16 * 2 ^ 1074)"

section \<open>Loops as closed forms\<close>

lemma Vector_eqI: "Vector.data (a :: 'a Vector) = Vector.data b \<Longrightarrow> a = b"
  by simp

lemma Matrix_eqI: "Matrix.data (a :: 'a Matrix) = Matrix.data b \<Longrightarrow> a = b"
  by simp

text \<open>
  A loop over \<open>0 .. n-1\<close> that assigns, at each index, a function of the index and of the
  element found there, maps that function over the first \<open>n\<close> elements.
\<close>

lemma fold_update_upt:
  "n \<le> length d \<Longrightarrow>
   fold (\<lambda>i d. d[i := h i (d ! i)]) [0..<n] d = map (\<lambda>i. h i (d ! i)) [0..<n] @ drop n d"
proof (induction n)
  case 0
  then show ?case by simp
next
  case (Suc n)
  then have n: "n < length d" by simp
  have "fold (\<lambda>i d. d[i := h i (d ! i)]) [0..<Suc n] d =
        (map (\<lambda>i. h i (d ! i)) [0..<n] @ drop n d)
          [n := h n ((map (\<lambda>i. h i (d ! i)) [0..<n] @ drop n d) ! n)]"
    using Suc by simp
  also have "\<dots> = map (\<lambda>i. h i (d ! i)) [0..<Suc n] @ drop (Suc n) d"
    using n by (intro nth_equalityI) (auto simp: nth_append nth_list_update less_Suc_eq)
  finally show ?case .
qed

lemma fold_update_all:
  "length d = n \<Longrightarrow>
   fold (\<lambda>i d. d[i := h i (d ! i)]) [0..<n] d = map (\<lambda>i. h i (d ! i)) [0..<n]"
  using fold_update_upt [of n d h] by simp

lemma Vector_apply_data:
  "Vector.data (Vector_apply N a b op) =
     map (\<lambda>i. op (Vector.data a ! i) (Vector.data b ! i)) [0..<N]"
  unfolding Vector_apply_def Vector_default_def
  using fold_update_all [of "replicate N 0" N "\<lambda>i _. op (Vector.data a ! i) (Vector.data b ! i)"]
  by simp

lemma Vector_apply_scalar_data:
  "Vector.data (Vector_apply_scalar N a c op) = map (\<lambda>i. op (Vector.data a ! i) c) [0..<N]"
  unfolding Vector_apply_scalar_def Vector_default_def
  using fold_update_all [of "replicate N 0" N "\<lambda>i _. op (Vector.data a ! i) c"]
  by simp

lemma Vector_apply_self_data:
  "length (Vector.data a) = N \<Longrightarrow>
   Vector.data (Vector_apply_self N a other op) =
     map (\<lambda>i. op (Vector.data a ! i) (other_data (Vector.data a) other ! i)) [0..<N]"
  unfolding Vector_apply_self_def
  using fold_update_all [of "Vector.data a" N
      "\<lambda>i x. op x (case other of Distinct v \<Rightarrow> Vector.data v ! i | Receiver \<Rightarrow> x)"]
  by (cases other) simp_all

lemma Vector_apply_scalar_self_Detached:
  "length (Vector.data a) = N \<Longrightarrow>
   Vector.data (Vector_apply_scalar_self N a (Detached c) op) =
     map (\<lambda>i. op (Vector.data a ! i) c) [0..<N]"
  unfolding Vector_apply_scalar_self_def
  using fold_update_all [of "Vector.data a" N "\<lambda>i x. op x c"]
  by simp

section \<open>Construction of vectors\<close>

lemma static_cast_int_small: "n < 2 ^ 31 \<Longrightarrow> static_cast_int n = int n"
proof -
  assume n: "n < 2 ^ 31"
  have "int n < 2 ^ 31"
    using n by (metis of_nat_less_iff of_nat_numeral of_nat_power)
  moreover have "- (2 ^ 31) \<le> int n"
    by (rule order_trans [of _ 0]) simp_all
  ultimately have "signed_take_bit 31 (int n) = int n"
    by (intro signed_take_bit_int_eq_self)
  then show ?thesis
    by (simp add: static_cast_int_def signed_of_nat)
qed

lemma copy_n_nat: "copy_n src (int n) dst = take n src @ drop n dst"
  by (simp add: copy_n_def)

lemma Vector_init_data:
  assumes "length values < 2 ^ 31"
  shows "Vector.data (Vector_init N values) = take N values @ replicate (N - length values) 0"
proof -
  have "min (int N) (static_cast_int (length values)) = int (min N (length values))"
    using assms by (simp add: static_cast_int_small)
  then have "Vector.data (Vector_init N values) =
      take (min N (length values)) values @ drop (min N (length values)) (replicate N 0)"
    by (simp only: Vector_init_def Vector.simps copy_n_nat)
  then show ?thesis by (simp add: min_def)
qed

text \<open>
  C5. A vector built from a list of scalars holds the first \<open>N\<close> of them, followed by
  zeros when the list has fewer than \<open>N\<close>: a shorter list is padded with zeros, a longer
  one is cut at \<open>N\<close>. The default constructor gives \<open>N\<close> zeros. (The list's size is one
  that \<^verbatim>\<open>static_cast<int>\<close> keeps, below \<open>2^31\<close>.)
\<close>

theorem Vector_init_pads_and_truncates:
  assumes "length values < 2 ^ 31"
  shows "Vector_ok N (Vector_init N values)
    \<and> Vector.data (Vector_init N values) = take N values @ replicate (N - length values) 0
    \<and> (\<forall>i<N. Vector.data (Vector_init N values) ! i =
          (if i < length values then values ! i else 0))
    \<and> Vector.data (Vector_default N :: 'a::zero Vector) = replicate N 0"
proof -
  note d = Vector_init_data [OF assms, of N]
  have "Vector_ok N (Vector_init N values)"
    by (simp add: Vector_ok_def d)
  moreover have "\<forall>i<N. Vector.data (Vector_init N values) ! i =
          (if i < length values then values ! i else 0)"
    by (simp add: d nth_append)
  ultimately show ?thesis by (simp add: d Vector_default_def)
qed

theorem Vector_init_pads_and_truncates_witness:
  "length [7, 8 :: int] < 2 ^ 31
   \<and> Vector.data (Vector_init 4 [7, 8 :: int]) = [7, 8, 0, 0]
   \<and> Vector.data (Vector_init 2 [7, 8, 9 :: int]) = [7, 8]
   \<and> Vector.data (Vector_default 3 :: int Vector) = [0, 0, 0]"
proof -
  have len: "length [7, 8 :: int] < 2 ^ 31" "length [7, 8, 9 :: int] < 2 ^ 31"
    by simp_all
  have r: "replicate 2 (0::int) = [0, 0]" "replicate 3 (0::int) = [0, 0, 0]"
    by code_simp+
  have "Vector.data (Vector_init 4 [7, 8 :: int]) =
      take 4 [7, 8] @ replicate (4 - length [7, 8 :: int]) 0"
    using Vector_init_pads_and_truncates [OF len(1), of 4] by blast
  then have a: "Vector.data (Vector_init 4 [7, 8 :: int]) = [7, 8, 0, 0]"
    by (simp add: r)
  have "Vector.data (Vector_init 2 [7, 8, 9 :: int]) =
      take 2 [7, 8, 9] @ replicate (2 - length [7, 8, 9 :: int]) 0"
    using Vector_init_pads_and_truncates [OF len(2), of 2] by blast
  then have b: "Vector.data (Vector_init 2 [7, 8, 9 :: int]) = [7, 8]"
    by simp
  have "Vector.data (Vector_default 3 :: int Vector) = replicate 3 0"
    using Vector_init_pads_and_truncates [OF len(1), of 3] by blast
  then have c: "Vector.data (Vector_default 3 :: int Vector) = [0, 0, 0]"
    by (simp add: r)
  show ?thesis using len a b c by simp
qed

section \<open>Arithmetic of double\<close>

text \<open>
  The two values are doubles, and the sums and the product that follow are what the
  rounding gives.
\<close>

lemma double_values:
  "round_to_double 0 (3602879701896397 * 2 ^ 1019) = double_0_1"
  "round_to_double 0 (10 ^ 16 * 2 ^ 1074) = double_1e16"
  "round_to_double 0 (2 ^ 1074) = 1"
  by code_simp+

lemma double_sums:
  "double_0_1 + double_1e16 = double_1e16"
  "double_1e16 - double_1e16 = 0"
  "1 - double_1e16 = negate double_1e16"
  "double_1e16 + negate double_1e16 = 0"
  by code_simp+

lemma double_product:
  "negate double_1e16 * 1 = negate double_1e16"
  by code_simp

lemma double_distinct:
  "(0::double) \<noteq> double_0_1" "(0::double) \<noteq> 1"
  by code_simp+

section \<open>Vector arithmetic\<close>

lemma map_upt_nth_id: "length xs = n \<Longrightarrow> map (\<lambda>i. xs ! i) [0..<n] = xs"
  by (auto simp: map_nth)




lemma Vector_lerp_data:
  "Vector.data (Vector_lerp N s e t) =
     map (\<lambda>i. Vector.data s ! i + (Vector.data e ! i - Vector.data s ! i) * t) [0..<N]"
  by (simp add: Vector_lerp_def Vector_plus_def Vector_minus_def Vector_times_scalar_def
      Vector_apply_data Vector_apply_scalar_data)

text \<open>
  C9, as amended. For vectors \<open>start\<close> and \<open>end\<close> of the same length and every scalar \<open>t\<close>,
  with no bound on \<open>t\<close>, each component of \<open>lerp(start, end, t)\<close> is
  \<open>start[i] + (end[i] - start[i]) * t\<close> in the scalar type's arithmetic.
  \<open>lerp(start, end, 0) == start\<close> for every scalar type on which \<open>x + (y - x) * 0 = x\<close> for
  all scalars, and \<open>lerp(start, end, 1) == end\<close> for every scalar type on which
  \<open>x + (y - x) * 1 = y\<close>, as on the integers and the \<open>n\<close>-bit words.
\<close>

theorem Vector_lerp_endpoints:
  fixes start end' :: "'a::{zero,one,plus,minus,times} Vector"
  assumes "Vector_ok N start" and "Vector_ok N end'"
  shows "Vector_ok N (Vector_lerp N start end' t)
       \<and> (\<forall>i<N. Vector.data (Vector_lerp N start end' t) ! i =
             Vector.data start ! i + (Vector.data end' ! i - Vector.data start ! i) * t)
       \<and> ((\<forall>x y :: 'a. x + (y - x) * 0 = x) \<longrightarrow> Vector_equal (Vector_lerp N start end' 0) start)
       \<and> ((\<forall>x y :: 'a. x + (y - x) * 1 = y) \<longrightarrow> Vector_equal (Vector_lerp N start end' 1) end')"
proof -
  have z: "Vector_equal (Vector_lerp N start end' 0) start"
    if "\<forall>x y :: 'a. x + (y - x) * 0 = x"
  proof -
    have "Vector.data (Vector_lerp N start end' 0) = map (\<lambda>i. Vector.data start ! i) [0..<N]"
      using that by (simp add: Vector_lerp_data)
    then show ?thesis
      using assms(1) by (simp add: Vector_equal_def Vector_ok_def map_upt_nth_id)
  qed
  have o: "Vector_equal (Vector_lerp N start end' 1) end'"
    if "\<forall>x y :: 'a. x + (y - x) * 1 = y"
  proof -
    have "Vector.data (Vector_lerp N start end' 1) = map (\<lambda>i. Vector.data end' ! i) [0..<N]"
      using that by (simp add: Vector_lerp_data)
    then show ?thesis
      using assms(2) by (simp add: Vector_equal_def Vector_ok_def map_upt_nth_id)
  qed
  show ?thesis
    using z o by (simp add: Vector_lerp_data Vector_ok_def)
qed

theorem Vector_lerp_endpoints_witness:
  "Vector_ok 2 \<lparr>Vector.data = [1, 2 :: int]\<rparr> \<and> Vector_ok 2 \<lparr>Vector.data = [5, 10 :: int]\<rparr>
   \<and> (\<forall>x y :: int. x + (y - x) * 0 = x) \<and> (\<forall>x y :: int. x + (y - x) * 1 = y)
   \<and> Vector.data (Vector_lerp 2 \<lparr>Vector.data = [1, 2 :: int]\<rparr> \<lparr>Vector.data = [5, 10]\<rparr> 3) = [13, 26]
   \<and> Vector_equal (Vector_lerp 2 \<lparr>Vector.data = [1, 2 :: int]\<rparr> \<lparr>Vector.data = [5, 10]\<rparr> 0)
        \<lparr>Vector.data = [1, 2]\<rparr>
   \<and> Vector_equal (Vector_lerp 2 \<lparr>Vector.data = [1, 2 :: int]\<rparr> \<lparr>Vector.data = [5, 10]\<rparr> 1)
        \<lparr>Vector.data = [5, 10]\<rparr>"
proof -
  have ok: "Vector_ok 2 \<lparr>Vector.data = [1, 2 :: int]\<rparr>" "Vector_ok 2 \<lparr>Vector.data = [5, 10 :: int]\<rparr>"
    by (simp_all add: Vector_ok_def)
  have "Vector.data (Vector_lerp 2 \<lparr>Vector.data = [1, 2 :: int]\<rparr> \<lparr>Vector.data = [5, 10]\<rparr> 3) = [13, 26]"
    by (simp add: Vector_lerp_def Vector_plus_def Vector_minus_def Vector_times_scalar_def
      Vector_apply_def Vector_apply_scalar_def Vector_default_def upt_rec numeral_eq_Suc)
  then show ?thesis
    using ok Vector_lerp_endpoints [OF ok, of 0] Vector_lerp_endpoints [OF ok, of 1] by simp
qed

text \<open>
  C9, as stated, fails for \<^verbatim>\<open>double\<close>: with \<open>start = {1e16}\<close> and \<open>end = {1.0}\<close> the difference
  \<open>end - start\<close> rounds to \<open>{-1e16}\<close>, so \<open>lerp(start, end, 1)\<close> is \<open>{0}\<close>, which is not \<open>end\<close>.
\<close>

theorem Vector_lerp_endpoint_double:
  "Vector_ok 1 \<lparr>Vector.data = [double_1e16]\<rparr> \<and> Vector_ok 1 \<lparr>Vector.data = [1 :: double]\<rparr>
   \<and> Vector.data (Vector_lerp 1 \<lparr>Vector.data = [double_1e16]\<rparr> \<lparr>Vector.data = [1]\<rparr> 1) = [0]
   \<and> \<not> Vector_equal (Vector_lerp 1 \<lparr>Vector.data = [double_1e16]\<rparr> \<lparr>Vector.data = [1]\<rparr> 1)
        \<lparr>Vector.data = [1]\<rparr>"
proof -
  have n: "[0..<1] = [0]" by (simp add: upt_rec)
  show ?thesis
    by (simp add: Vector_ok_def Vector_equal_def Vector_lerp_data n double_sums double_product
        double_distinct)
qed




section \<open>Sums\<close>

lemma fold_plus_sum:
  fixes f :: "nat \<Rightarrow> 'a::comm_monoid_add"
  shows "fold (\<lambda>i r. r + f i) [0..<n] z = z + sum f {0..<n}"
  by (induction n) (simp_all add: add.assoc)

section \<open>Loops over matrices\<close>

lemma fold_cong_inv:
  assumes "P s"
    and "\<And>x s. x \<in> set xs \<Longrightarrow> P s \<Longrightarrow> f x s = g x s \<and> P (g x s)"
  shows "fold f xs s = fold g xs s \<and> P (fold g xs s)"
  using assms
proof (induction xs arbitrary: s)
  case Nil
  then show ?case by simp
next
  case (Cons x xs)
  have step: "f x s = g x s" "P (g x s)"
    using Cons.prems(1) Cons.prems(2) [of x s] by simp_all
  have "fold f xs (g x s) = fold g xs (g x s) \<and> P (fold g xs (g x s))"
    using Cons.prems(2) by (intro Cons.IH [OF step(2)]) simp
  then show ?case using step by simp
qed

lemma for_loop_total:
  "(\<And>i s. i \<in> set js \<Longrightarrow> body i s = Inr (g i s)) \<Longrightarrow>
   for_loop js body s = Inr (fold g js s)"
  by (induction js arbitrary: s) simp_all

lemma fold_set_entry_row:
  "i < length r \<Longrightarrow>
   fold (\<lambda>j r. set_entry r i j (h j (r ! i ! j))) js r =
     r[i := fold (\<lambda>j row. row[j := h j (row ! j)]) js (r ! i)]"
  by (induction js arbitrary: r) (simp_all add: set_entry_def)

lemma fold_set_entry_same:
  "i < length r \<Longrightarrow> j < length (r ! i) \<Longrightarrow>
   fold (\<lambda>k r. set_entry r i j (g k (r ! i ! j))) ks r = set_entry r i j (fold g ks (r ! i ! j))"
proof (induction ks arbitrary: r)
  case Nil
  then show ?case by (simp add: set_entry_def)
next
  case (Cons k ks)
  then show ?case
    using Cons.IH [of "set_entry r i j (g k (r ! i ! j))"]
    by (simp add: set_entry_def)
qed

lemma fold_update_same:
  "i < length d \<Longrightarrow>
   fold (\<lambda>k d. d[i := g k (d ! i)]) ks d = d[i := fold g ks (d ! i)]"
  by (induction ks arbitrary: d) simp_all

lemma nested_loops_closed_form:
  fixes m :: "'a list list"
  assumes len: "length m = R" and rows: "list_all (\<lambda>row. length row = C) m"
    and body: "\<And>i j r. i < R \<Longrightarrow> j < C \<Longrightarrow> length r = R \<Longrightarrow>
        list_all (\<lambda>row. length row = C) r \<Longrightarrow> f i j r = set_entry r i j (h i j (r ! i ! j))"
  shows "fold (\<lambda>i r. fold (f i) [0..<C] r) [0..<R] m =
         map (\<lambda>i. map (\<lambda>j. h i j (m ! i ! j)) [0..<C]) [0..<R]"
proof -
  let ?P = "\<lambda>r. length r = R \<and> list_all (\<lambda>row. length row = C) r"
  let ?H = "\<lambda>i row. map (\<lambda>j. h i j (row ! j)) [0..<C]"
  have keep: "?P (set_entry r i j v)" if "?P r" "i < R" for r :: "'a list list" and i j v
    using that by (auto simp: set_entry_def list_all_iff dest!: set_update_subset_insert [THEN subsetD])
  have inner: "fold (f i) [0..<C] r = r[i := ?H i (r ! i)] \<and> ?P (r[i := ?H i (r ! i)])"
    if "i < R" "?P r" for i and r :: "'a list list"
  proof -
    have "fold (f i) [0..<C] r = fold (\<lambda>j r. set_entry r i j (h i j (r ! i ! j))) [0..<C] r
        \<and> ?P (fold (\<lambda>j r. set_entry r i j (h i j (r ! i ! j))) [0..<C] r)"
      using that(2)
    proof (rule fold_cong_inv)
      fix j and s :: "'a list list" assume "j \<in> set [0..<C]" "?P s"
      then show "f i j s = set_entry s i j (h i j (s ! i ! j))
          \<and> ?P (set_entry s i j (h i j (s ! i ! j)))"
        using body [of i j s] keep [of s i j] that(1) by simp
    qed
    moreover have "fold (\<lambda>j r. set_entry r i j (h i j (r ! i ! j))) [0..<C] r = r[i := ?H i (r ! i)]"
    proof -
      have "length (r ! i) = C" using that by (simp add: list_all_length)
      then show ?thesis
        using that fold_set_entry_row [of i r "h i" "[0..<C]"]
          fold_update_all [of "r ! i" C "h i"] by simp
    qed
    ultimately show ?thesis by simp
  qed
  have "fold (\<lambda>i r. fold (f i) [0..<C] r) [0..<R] m = fold (\<lambda>i r. r[i := ?H i (r ! i)]) [0..<R] m
      \<and> ?P (fold (\<lambda>i r. r[i := ?H i (r ! i)]) [0..<R] m)"
  proof (rule fold_cong_inv)
    show "?P m" using len rows by simp
  next
    fix i and s :: "'a list list" assume "i \<in> set [0..<R]" "?P s"
    then show "fold (f i) [0..<C] s = s[i := ?H i (s ! i)] \<and> ?P (s[i := ?H i (s ! i)])"
      using inner [of i s] by simp
  qed
  then show ?thesis
    using fold_update_all [OF len, of ?H] by simp
qed

lemma zeros_ok:
  "length (replicate R (replicate C z)) = R \<and> list_all (\<lambda>row. length row = C) (replicate R (replicate C z))"
  by (simp add: list_all_iff)

lemma Matrix_apply_data:
  "Matrix.data (Matrix_apply R C a b op) =
     map (\<lambda>i. map (\<lambda>j. op (Matrix.data a ! i ! j) (Matrix.data b ! i ! j)) [0..<C]) [0..<R]"
  unfolding Matrix_apply_def Matrix_default_def Matrix.simps
  by (rule nested_loops_closed_form
      [where h = "\<lambda>i j _. op (Matrix.data a ! i ! j) (Matrix.data b ! i ! j)"])
    (simp_all add: zeros_ok)

lemma Matrix_apply_scalar_data:
  "Matrix.data (Matrix_apply_scalar R C a c op) =
     map (\<lambda>i. map (\<lambda>j. op (Matrix.data a ! i ! j) c) [0..<C]) [0..<R]"
  unfolding Matrix_apply_scalar_def Matrix_default_def Matrix.simps
  by (rule nested_loops_closed_form [where h = "\<lambda>i j _. op (Matrix.data a ! i ! j) c"])
    (simp_all add: zeros_ok)

lemma Matrix_apply_self_data:
  assumes "Matrix_ok R C a"
  shows "Matrix.data (Matrix_apply_self R C a other op) =
     map (\<lambda>i. map (\<lambda>j. op (Matrix.data a ! i ! j) (other_rows (Matrix.data a) other ! i ! j))
       [0..<C]) [0..<R]"
proof (cases other)
  case (DistinctM b)
  show ?thesis
    unfolding Matrix_apply_self_def Matrix.simps DistinctM other_rows.simps
    by (rule nested_loops_closed_form [where h = "\<lambda>i j x. op x (Matrix.data b ! i ! j)"])
      (use assms in \<open>simp_all add: Matrix_ok_def\<close>)
next
  case ReceiverM
  show ?thesis
    unfolding Matrix_apply_self_def Matrix.simps ReceiverM other_rows.simps
    by (rule nested_loops_closed_form [where h = "\<lambda>i j x. op x x"])
      (use assms in \<open>simp_all add: Matrix_ok_def\<close>)
qed

lemma Matrix_apply_scalar_self_DetachedM:
  assumes "Matrix_ok R C a"
  shows "Matrix.data (Matrix_apply_scalar_self R C a (DetachedM c) op) =
     map (\<lambda>i. map (\<lambda>j. op (Matrix.data a ! i ! j) c) [0..<C]) [0..<R]"
  unfolding Matrix_apply_scalar_self_def Matrix.simps entry_value.simps
  by (rule nested_loops_closed_form [where h = "\<lambda>i j x. op x c"])
    (use assms in \<open>simp_all add: Matrix_ok_def\<close>)


section \<open>Normalization\<close>

lemma Vector_apply_scalar_partial_total:
  assumes "\<And>i. i < N \<Longrightarrow> op (Vector.data a ! i) c = Inr (f i)"
  shows "Vector_apply_scalar_partial N a c op = Inr \<lparr>Vector.data = map f [0..<N]\<rparr>"
proof -
  have "for_loop [0..<N] (\<lambda>i result.
          case op (Vector.data a ! i) c of Inl e \<Rightarrow> Inl e | Inr v \<Rightarrow> Inr (result[i := v])) s =
        Inr (fold (\<lambda>i result. result[i := f i]) [0..<N] s)" for s
    by (rule for_loop_total) (simp add: assms)
  moreover have "fold (\<lambda>i result. result[i := f i]) [0..<N] (replicate N 0) = map f [0..<N]"
    using fold_update_all [of "replicate N 0" N "\<lambda>i _. f i"] by simp
  ultimately show ?thesis
    by (simp add: Vector_apply_scalar_partial_def Vector_default_def)
qed

lemma Vector_apply_scalar_partial_Inr:
  "Vector_apply_scalar_partial N a c (\<lambda>x y. Inr (op x y)) = Inr (Vector_apply_scalar N a c op)"
proof -
  have "Vector_apply_scalar N a c op = \<lparr>Vector.data = map (\<lambda>i. op (Vector.data a ! i) c) [0..<N]\<rparr>"
    by (rule Vector_eqI) (simp add: Vector_apply_scalar_data)
  then show ?thesis
    by (simp add: Vector_apply_scalar_partial_total)
qed

lemma Vector_divide_scalar_nonzero:
  assumes "c \<noteq> 0" and "Vector_ok N a"
  shows "Vector_divide_scalar dv N a c = Inr \<lparr>Vector.data = map (\<lambda>x. dv x c) (Vector.data a)\<rparr>"
proof -
  have "Vector_divide_scalar dv N a c = Inr \<lparr>Vector.data = map (\<lambda>i. dv (Vector.data a ! i) c) [0..<N]\<rparr>"
    unfolding Vector_divide_scalar_def
    by (rule Vector_apply_scalar_partial_total) (simp add: divides_def assms(1))
  moreover have "map (\<lambda>i. dv (Vector.data a ! i) c) [0..<N] = map (\<lambda>x. dv x c) (Vector.data a)"
    using assms(2) map_upt_nth_id [of "Vector.data a" N]
    by (metis (mono_tags, lifting) Vector_ok_def map_map o_def map_cong)
  ultimately show ?thesis by simp
qed

lemma Vector_divide_scalar_zero:
  "0 < N \<Longrightarrow> Vector_divide_scalar dv N a 0 = Inl ZeroDivisor"
  by (simp add: Vector_divide_scalar_def Vector_apply_scalar_partial_def divides_def upt_conv_Cons)

lemma Vector_dot_default:
  assumes "(0::'a::{zero,plus,times}) + 0 * 0 = 0"
  shows "Vector_dot N (Vector_default N) (Vector_default N) = (0::'a)"
proof -
  have "fold (\<lambda>i result. result + replicate N (0::'a) ! i * replicate N 0 ! i) js 0 = 0"
    if "set js \<subseteq> {0..<N}" for js
    using that by (induction js) (simp_all add: assms)
  then show ?thesis
    by (simp add: Vector_dot_def Vector_default_def)
qed

text \<open>
  C4. For a vector \<open>a\<close>, with \<open>mag = magnitude(a)\<close>: when \<open>mag > 0\<close>, \<open>normalized(a)\<close> is \<open>a\<close>
  with every component divided by \<open>mag\<close>; otherwise it is \<open>a\<close> unchanged. \<open>normalized\<close> of
  the zero vector is the zero vector, where the division it guards, of the zero vector
  by its magnitude, is a division by zero. The scalar type is any with \<open>0 < 0\<close> false,
  \<open>0 + 0 * 0 = 0\<close> and \<open>sqrt 0 = 0\<close>: the integer and the floating-point types.
\<close>

theorem Vector_normalized_guard:
  fixes a :: "'a::{zero,plus,times,ord} Vector"
  assumes "Vector_ok N a"
    and "\<not> (0::'a) < 0" and "(0::'a) + 0 * 0 = 0" and "sqrtT 0 = 0"
  shows "(0 < Vector_magnitude sqrtT N a \<longrightarrow>
           Vector_normalized sqrtT dv N a =
             Inr \<lparr>Vector.data = map (\<lambda>x. dv x (Vector_magnitude sqrtT N a)) (Vector.data a)\<rparr>)
       \<and> (\<not> 0 < Vector_magnitude sqrtT N a \<longrightarrow> Vector_normalized sqrtT dv N a = Inr a)
       \<and> Vector_normalized sqrtT dv N (Vector_default N) = Inr (Vector_default N)
       \<and> (0 < N \<longrightarrow>
            Vector_divide_scalar dv N (Vector_default N)
              (Vector_magnitude sqrtT N (Vector_default N)) = Inl ZeroDivisor)"
proof -
  have zero: "Vector_magnitude sqrtT N (Vector_default N) = 0"
    by (simp add: Vector_magnitude_def Vector_dot_default assms(3,4))
  have "Vector_normalized sqrtT dv N a =
      Inr \<lparr>Vector.data = map (\<lambda>x. dv x (Vector_magnitude sqrtT N a)) (Vector.data a)\<rparr>"
    if "0 < Vector_magnitude sqrtT N a"
  proof -
    have "Vector_magnitude sqrtT N a \<noteq> 0"
      using that assms(2) by auto
    then show ?thesis
      using that assms(1) by (simp add: Vector_normalized_def Vector_divide_scalar_nonzero)
  qed
  moreover have "Vector_normalized sqrtT dv N a = Inr a"
    if "\<not> 0 < Vector_magnitude sqrtT N a"
    using that by (simp add: Vector_normalized_def)
  moreover have "Vector_normalized sqrtT dv N (Vector_default N) = Inr (Vector_default N)"
    using assms(2) by (simp add: Vector_normalized_def zero)
  moreover have "Vector_divide_scalar dv N (Vector_default N)
      (Vector_magnitude sqrtT N (Vector_default N)) = Inl ZeroDivisor" if "0 < N"
    using that by (simp add: zero Vector_divide_scalar_zero)
  ultimately show ?thesis by blast
qed

theorem Vector_normalized_guard_witness:
  "Vector_ok 2 \<lparr>Vector.data = [3, 4 :: real]\<rparr>
   \<and> \<not> (0::real) < 0 \<and> (0::real) + 0 * 0 = 0 \<and> sqrt 0 = 0
   \<and> Vector_magnitude sqrt 2 \<lparr>Vector.data = [3, 4]\<rparr> = 5
   \<and> Vector_normalized sqrt (/) 2 \<lparr>Vector.data = [3, 4]\<rparr> = Inr \<lparr>Vector.data = [3 / 5, 4 / 5]\<rparr>
   \<and> Vector_ok 2 \<lparr>Vector.data = [0, 0 :: real]\<rparr>
   \<and> Vector_magnitude sqrt 2 \<lparr>Vector.data = [0, 0]\<rparr> = 0
   \<and> Vector_normalized sqrt (/) 2 \<lparr>Vector.data = [0, 0]\<rparr> = Inr \<lparr>Vector.data = [0, 0]\<rparr>
   \<and> Vector_divide_scalar (/) 2 \<lparr>Vector.data = [0, 0 :: real]\<rparr> 0 = Inl ZeroDivisor"
proof -
  have n: "[0..<2] = [0, 1]" by (simp add: upt_rec numeral_eq_Suc)
  have ok: "Vector_ok 2 \<lparr>Vector.data = [3, 4 :: real]\<rparr>" "Vector_ok 2 \<lparr>Vector.data = [0, 0 :: real]\<rparr>"
    by (simp_all add: Vector_ok_def)
  have h: "\<not> (0::real) < 0" "(0::real) + 0 * 0 = 0" "sqrt 0 = 0"
    by simp_all
  have d: "Vector_default 2 = \<lparr>Vector.data = [0, 0 :: real]\<rparr>"
    by (simp add: Vector_default_def numeral_eq_Suc)
  have "sqrt 25 = sqrt (5\<^sup>2)" by simp
  then have s: "sqrt 25 = 5" by (simp only: real_sqrt_abs)
  have m: "Vector_magnitude sqrt 2 \<lparr>Vector.data = [3, 4]\<rparr> = 5"
    by (simp add: Vector_magnitude_def Vector_dot_def n s)
  have z: "Vector_magnitude sqrt 2 \<lparr>Vector.data = [0, 0]\<rparr> = 0"
    by (simp add: Vector_magnitude_def Vector_dot_def n)
  have a: "Vector_normalized sqrt (/) 2 \<lparr>Vector.data = [3, 4]\<rparr> = Inr \<lparr>Vector.data = [3 / 5, 4 / 5]\<rparr>"
    using Vector_normalized_guard [where sqrtT = sqrt and dv = "(/)", OF ok(1) h] m by simp
  have b: "Vector_normalized sqrt (/) 2 \<lparr>Vector.data = [0, 0]\<rparr> = Inr \<lparr>Vector.data = [0, 0]\<rparr>"
    using Vector_normalized_guard [where sqrtT = sqrt and dv = "(/)", OF ok(2) h] z by simp
  have c: "Vector_divide_scalar (/) 2 \<lparr>Vector.data = [0, 0 :: real]\<rparr> 0 = Inl ZeroDivisor"
    using Vector_normalized_guard [where sqrtT = sqrt and dv = "(/)", OF ok(2) h] z d by simp
  show ?thesis using ok h m z a b c by simp
qed

section \<open>Matrix product\<close>

text \<open>
  With the parameter \<open>Cols\<close> as the bound of the middle loop, the loops of \<^verbatim>\<open>multiply\<close>
  compute the product of two square matrices.
\<close>

lemma Matrix_multiply_loops_data:
  fixes a b :: "'a::semiring_0 Matrix"
  shows "Matrix_multiply_loops n n n a b =
     \<lparr>Matrix.data = map (\<lambda>i. map (\<lambda>j. \<Sum>k = 0..<n. Matrix.data a ! i ! k * Matrix.data b ! k ! j)
       [0..<n]) [0..<n]\<rparr>"
proof -
  let ?g = "\<lambda>i j k (acc::'a). acc + Matrix.data a ! i ! k * Matrix.data b ! k ! j"
  let ?S = "\<lambda>i j. \<Sum>k = 0..<n. Matrix.data a ! i ! k * Matrix.data b ! k ! j"
  have body: "fold (\<lambda>k r. set_entry r i j (r ! i ! j + Matrix.data a ! i ! k * Matrix.data b ! k ! j))
        [0..<n] (set_entry r i j 0) = set_entry r i j (?S i j)"
    if "i < n" "j < n" "length r = n" "list_all (\<lambda>row. length row = n) r"
    for i j and r :: "'a list list"
  proof -
    have r: "i < length (set_entry r i j 0)" "j < length (set_entry r i j 0 ! i)"
      using that by (simp_all add: set_entry_def list_all_length)
    have "fold (\<lambda>k r. set_entry r i j (?g i j k (r ! i ! j))) [0..<n] (set_entry r i j 0) =
        set_entry (set_entry r i j 0) i j (fold (?g i j) [0..<n] (set_entry r i j 0 ! i ! j))"
      by (rule fold_set_entry_same [OF r])
    also have "\<dots> = set_entry r i j (fold (?g i j) [0..<n] 0)"
      using that by (simp add: set_entry_def list_all_length)
    also have "fold (?g i j) [0..<n] 0 = ?S i j"
      using fold_plus_sum [of "\<lambda>k. Matrix.data a ! i ! k * Matrix.data b ! k ! j" n 0] by simp
    finally show ?thesis .
  qed
  have "fold (\<lambda>i r. fold (\<lambda>j r.
          fold (\<lambda>k r. set_entry r i j (r ! i ! j + Matrix.data a ! i ! k * Matrix.data b ! k ! j))
            [0..<n] (set_entry r i j 0)) [0..<n] r) [0..<n] (replicate n (replicate n 0)) =
        map (\<lambda>i. map (\<lambda>j. ?S i j) [0..<n]) [0..<n]"
    by (rule nested_loops_closed_form [where h = "\<lambda>i j _. ?S i j"])
      (simp_all add: zeros_ok body)
  then show ?thesis
    by (simp add: Matrix_multiply_loops_def Matrix_default_def)
qed

lemma Matrix_multiply_rejected:
  "Matrix_multiply Rows Cols a b = Inl (if Cols \<noteq> Rows then StaticAssert else NoSuchMember)"
  by (simp add: Matrix_multiply_def member_access_def Matrix_members_def)

text \<open>
  C2 at two square matrices. \<^verbatim>\<open>a * b\<close> and \<^verbatim>\<open>a *= b\<close> on \<open>{{1, 2}, {3, 4}}\<close> and
  \<open>{{5, 6}, {7, 8}}\<close> are rejected: the assertion holds, and \<^verbatim>\<open>other.Cols\<close> names no member. No
  product is computed. The loops themselves, with the bound 2 in its place, give
  \<open>{{19, 22}, {43, 50}}\<close>.
\<close>

theorem Matrix_times_no_such_member:
  "Matrix_ok 2 2 \<lparr>Matrix.data = [[1, 2], [3, 4 :: int]]\<rparr>
   \<and> Matrix_ok 2 2 \<lparr>Matrix.data = [[5, 6], [7, 8 :: int]]\<rparr>
   \<and> Matrix_times 2 2 \<lparr>Matrix.data = [[1, 2], [3, 4 :: int]]\<rparr> \<lparr>Matrix.data = [[5, 6], [7, 8]]\<rparr>
        = Inl NoSuchMember
   \<and> Matrix_times_assign 2 2 \<lparr>Matrix.data = [[1, 2], [3, 4 :: int]]\<rparr>
        (DistinctM \<lparr>Matrix.data = [[5, 6], [7, 8]]\<rparr>) = Inl NoSuchMember
   \<and> Matrix_multiply_loops 2 2 2 \<lparr>Matrix.data = [[1, 2], [3, 4 :: int]]\<rparr>
        \<lparr>Matrix.data = [[5, 6], [7, 8]]\<rparr> = \<lparr>Matrix.data = [[19, 22], [43, 50]]\<rparr>"
proof -
  have n: "[0..<2] = [0, 1]" by (simp add: upt_rec numeral_eq_Suc)
  have r: "replicate 2 x = [x, x]" for x :: 'b by (simp add: numeral_eq_Suc)
  have "Matrix_multiply_loops 2 2 2 \<lparr>Matrix.data = [[1, 2], [3, 4 :: int]]\<rparr>
        \<lparr>Matrix.data = [[5, 6], [7, 8]]\<rparr> = \<lparr>Matrix.data = [[19, 22], [43, 50]]\<rparr>"
    by (simp add: Matrix_multiply_loops_def Matrix_default_def set_entry_def n r)
  then show ?thesis
    by (simp add: Matrix_ok_def Matrix_times_def Matrix_times_assign_def Matrix_multiply_def
        member_access_def Matrix_members_def)
qed

section \<open>Matrix times vector\<close>

lemma Matrix_transform_data:
  fixes a :: "'a::semiring_0 Matrix"
  assumes "Cols \<le> N"
  shows "Matrix_transform N Cols a N vec =
     Inr \<lparr>Vector.data = map (\<lambda>i. \<Sum>j = 0..<Cols. Matrix.data a ! i ! j * Vector.data vec ! j) [0..<N]\<rparr>"
proof -
  let ?f = "\<lambda>i j. Matrix.data a ! i ! j * Vector.data vec ! j"
  let ?S = "\<lambda>i. \<Sum>j = 0..<Cols. ?f i j"
  have inner: "for_loop [0..<Cols] (\<lambda>j result.
          if j < N then Inr (result[i := result ! i + ?f i j]) else Inl OutOfRange) s =
        Inr (fold (\<lambda>j result. result[i := result ! i + ?f i j]) [0..<Cols] s)"
    for i and s :: "'a list"
    by (rule for_loop_total) (use assms in simp)
  have row: "fold (\<lambda>j result. result[i := result ! i + ?f i j]) [0..<Cols] (s[i := 0]) = s[i := ?S i]"
    if "i < length s" for i and s :: "'a list"
  proof -
    have "fold (\<lambda>j result. result[i := (\<lambda>j x. x + ?f i j) j (result ! i)]) [0..<Cols] (s[i := 0]) =
        (s[i := 0])[i := fold (\<lambda>j x. x + ?f i j) [0..<Cols] (s[i := 0] ! i)]"
      by (rule fold_update_same) (use that in simp)
    then show ?thesis
      using that fold_plus_sum [of "?f i" Cols 0] by simp
  qed
  have "for_loop [0..<N] (\<lambda>i result. for_loop [0..<Cols] (\<lambda>j result.
          if j < N then Inr (result[i := result ! i + ?f i j]) else Inl OutOfRange) (result[i := 0])) s =
        Inr (fold (\<lambda>i result. fold (\<lambda>j result. result[i := result ! i + ?f i j]) [0..<Cols] (result[i := 0]))
          [0..<N] s)"
    for s :: "'a list"
    by (rule for_loop_total) (simp add: inner)
  moreover have "fold (\<lambda>i result. fold (\<lambda>j result. result[i := result ! i + ?f i j]) [0..<Cols] (result[i := 0]))
          [0..<N] (replicate N 0) = fold (\<lambda>i result. result[i := ?S i]) [0..<N] (replicate N 0)
      \<and> length (fold (\<lambda>i result. result[i := ?S i]) [0..<N] (replicate N (0::'a))) = N"
    by (rule fold_cong_inv [where P = "\<lambda>s. length s = N"]) (simp_all add: row)
  moreover have "fold (\<lambda>i result. result[i := ?S i]) [0..<N] (replicate N 0) = map ?S [0..<N]"
    using fold_update_all [of "replicate N 0" N "\<lambda>i _. ?S i"] by simp
  ultimately show ?thesis
    by (simp add: Matrix_transform_def Vector_default_def)
qed

text \<open>
  \<open>transform\<close> is rejected unless the vector's length is the matrix's row count. For a
  matrix with no more columns than rows every read is in range, and the result is the
  vector of length \<open>Rows\<close> with \<open>result[i]\<close> the sum over the columns \<open>j\<close> of
  \<open>self[i][j] * vector[j]\<close>.
\<close>

theorem Matrix_transform_rows:
  fixes this :: "'a::semiring_0 Matrix"
  shows "(Rows \<noteq> N \<longrightarrow> Matrix_transform Rows Cols this N vec = Inl StaticAssert)
       \<and> (Rows = N \<and> Cols \<le> Rows \<and> Matrix_ok Rows Cols this \<and> Vector_ok N vec \<longrightarrow>
            (\<exists>result. Matrix_transform Rows Cols this N vec = Inr result
               \<and> Vector_ok Rows result
               \<and> (\<forall>i<Rows. Vector.data result ! i =
                     (\<Sum>j = 0..<Cols. Matrix.data this ! i ! j * Vector.data vec ! j))))"
proof -
  have "Rows \<noteq> N \<longrightarrow> Matrix_transform Rows Cols this N vec = Inl StaticAssert"
    by (simp add: Matrix_transform_def)
  moreover have "\<exists>result. Matrix_transform Rows Cols this N vec = Inr result
               \<and> Vector_ok Rows result
               \<and> (\<forall>i<Rows. Vector.data result ! i =
                     (\<Sum>j = 0..<Cols. Matrix.data this ! i ! j * Vector.data vec ! j))"
    if "Rows = N" "Cols \<le> Rows"
    using that by (simp add: Matrix_transform_data Vector_ok_def)
  ultimately show ?thesis by blast
qed

theorem Matrix_transform_rows_witness:
  "Matrix_transform 3 3 \<lparr>Matrix.data = [[1, 0, 0], [0, 1, 0], [0, 0, 1 :: int]]\<rparr> 2
       \<lparr>Vector.data = [7, 8]\<rparr> = Inl StaticAssert
   \<and> Matrix_ok 3 3 \<lparr>Matrix.data = [[1, 0, 0], [0, 1, 0], [0, 0, 1 :: int]]\<rparr>
   \<and> Vector_ok 3 \<lparr>Vector.data = [7, 8, 9 :: int]\<rparr>
   \<and> Matrix_transform 3 3 \<lparr>Matrix.data = [[1, 0, 0], [0, 1, 0], [0, 0, 1 :: int]]\<rparr> 3
       \<lparr>Vector.data = [7, 8, 9]\<rparr> = Inr \<lparr>Vector.data = [7, 8, 9]\<rparr>
   \<and> Matrix_ok 2 1 \<lparr>Matrix.data = [[2], [3 :: int]]\<rparr>
   \<and> Vector_ok 2 \<lparr>Vector.data = [5, 6 :: int]\<rparr>
   \<and> Matrix_transform 2 1 \<lparr>Matrix.data = [[2], [3 :: int]]\<rparr> 2 \<lparr>Vector.data = [5, 6]\<rparr>
        = Inr \<lparr>Vector.data = [10, 15]\<rparr>"
proof -
  have n: "[0..<3] = [0, 1, 2]" "[0..<2] = [0, 1]" "[0..<1] = [0]"
    by (simp_all add: upt_rec numeral_eq_Suc)
  have r: "replicate 3 x = [x, x, x]" "replicate 2 x = [x, x]" for x :: 'b
    by (simp_all add: numeral_eq_Suc)
  have ok: "Matrix_ok 3 3 \<lparr>Matrix.data = [[1, 0, 0], [0, 1, 0], [0, 0, 1 :: int]]\<rparr>"
    "Vector_ok 3 \<lparr>Vector.data = [7, 8, 9 :: int]\<rparr>"
    "Matrix_ok 2 1 \<lparr>Matrix.data = [[2], [3 :: int]]\<rparr>"
    "Vector_ok 2 \<lparr>Vector.data = [5, 6 :: int]\<rparr>"
    by (simp_all add: Matrix_ok_def Vector_ok_def)
  have a: "Matrix_transform 3 3 \<lparr>Matrix.data = [[1, 0, 0], [0, 1, 0], [0, 0, 1 :: int]]\<rparr> 3
       \<lparr>Vector.data = [7, 8, 9]\<rparr> = Inr \<lparr>Vector.data = [7, 8, 9]\<rparr>"
    by (simp add: Matrix_transform_def Vector_default_def n r)
  have b: "Matrix_transform 2 1 \<lparr>Matrix.data = [[2], [3 :: int]]\<rparr> 2 \<lparr>Vector.data = [5, 6]\<rparr>
        = Inr \<lparr>Vector.data = [10, 15]\<rparr>"
    by (simp add: Matrix_transform_def Vector_default_def n r)
  show ?thesis
    using ok a b
      Matrix_transform_rows [of 3 2 3 "\<lparr>Matrix.data = [[1, 0, 0], [0, 1, 0], [0, 0, 1 :: int]]\<rparr>"
        "\<lparr>Vector.data = [7, 8]\<rparr>"]
      Matrix_transform_rows [of 3 3 3 "\<lparr>Matrix.data = [[1, 0, 0], [0, 1, 0], [0, 0, 1 :: int]]\<rparr>"
        "\<lparr>Vector.data = [7, 8, 9]\<rparr>"]
    by simp
qed

lemma for_loop_fails:
  assumes "x \<in> set js" and "\<And>s. body x s = Inl e"
    and "\<And>i s e'. i \<in> set js \<Longrightarrow> body i s = Inl e' \<Longrightarrow> e' = e"
  shows "for_loop js body s = Inl e"
  using assms
proof (induction js arbitrary: s)
  case Nil
  then show ?case by simp
next
  case (Cons i js)
  show ?case
  proof (cases "body i s")
    case (Inl e')
    then show ?thesis using Cons.prems(3) [of i s e'] by simp
  next
    case (Inr s')
    then have "x \<noteq> i" using Cons.prems(2) [of s] by auto
    then have "x \<in> set js" using Cons.prems(1) by simp
    then have "for_loop js body s' = Inl e"
      using Cons.prems(2,3) by (intro Cons.IH) auto
    then show ?thesis using Inr by simp
  qed
qed

text \<open>
  For a matrix with more columns than rows, and at least one row, the accepted call
  reads past the end of the vector.
\<close>

lemma Matrix_transform_wide:
  assumes "0 < Rows" and "Rows < Cols"
  shows "Matrix_transform Rows Cols a Rows v = Inl OutOfRange"
proof -
  have inner: "for_loop [0..<Cols] (\<lambda>j result.
          if j < Rows
          then Inr (result[i := result ! i + Matrix.data a ! i ! j * Vector.data v ! j])
          else Inl OutOfRange) s = Inl OutOfRange" for i s
    by (rule for_loop_fails [where x = Rows]) (use assms in \<open>auto split: if_splits\<close>)
  have "for_loop [0..<Rows] (\<lambda>i result. for_loop [0..<Cols] (\<lambda>j result.
          if j < Rows
          then Inr (result[i := result ! i + Matrix.data a ! i ! j * Vector.data v ! j])
          else Inl OutOfRange) (result[i := 0])) s = Inl OutOfRange" for s
    by (rule for_loop_fails [where x = 0]) (use assms in \<open>auto simp: inner\<close>)
  then show ?thesis
    by (simp add: Matrix_transform_def)
qed

text \<open>
  C3 at a matrix with more columns than rows. For the 1 x 2 matrix \<open>{{1, 1}}\<close> and the
  vector \<open>{5}\<close> of length 1 the assertion \<^verbatim>\<open>Rows == N\<close> holds, so the call is accepted, and
  the inner loop reads \<^verbatim>\<open>vec[1]\<close>, past the end of the vector: out of range, and no
  vector of sums is returned.
\<close>

theorem Matrix_transform_wide_out_of_range:
  "Matrix_ok 1 2 \<lparr>Matrix.data = [[1, 1 :: int]]\<rparr> \<and> Vector_ok 1 \<lparr>Vector.data = [5 :: int]\<rparr>
   \<and> Matrix_transform 1 2 \<lparr>Matrix.data = [[1, 1 :: int]]\<rparr> 1 \<lparr>Vector.data = [5]\<rparr> = Inl OutOfRange"
proof -
  have n: "[0..<2] = [0, 1]" "[0..<1] = [0]"
    by (simp_all add: upt_rec numeral_eq_Suc)
  show ?thesis
    by (simp add: Matrix_ok_def Vector_ok_def Matrix_transform_def Vector_default_def n)
qed

section \<open>Transpose\<close>

lemma transpose_columns:
  fixes r0 :: "'a list list"
  assumes "length r0 = n" and "list_all (\<lambda>row. length row = n) r0" and "m \<le> n"
  shows "fold (\<lambda>i r. map (\<lambda>j. (r ! j)[i := f i j]) [0..<n]) [0..<m] r0 =
         map (\<lambda>j. map (\<lambda>i. if i < m then f i j else r0 ! j ! i) [0..<n]) [0..<n]"
  using assms(3)
proof (induction m)
  case 0
  have "map (\<lambda>j. map (\<lambda>i. r0 ! j ! i) [0..<n]) [0..<n] = map (\<lambda>j. r0 ! j) [0..<n]"
    using assms(1,2) by (intro map_cong refl) (simp add: list_all_length map_upt_nth_id)
  also have "\<dots> = r0" using assms(1) by (simp add: map_upt_nth_id)
  finally show ?case by simp
next
  case (Suc m)
  then have m: "m < n" by simp
  have "fold (\<lambda>i r. map (\<lambda>j. (r ! j)[i := f i j]) [0..<n]) [0..<Suc m] r0 =
      map (\<lambda>j. (map (\<lambda>j. map (\<lambda>i. if i < m then f i j else r0 ! j ! i) [0..<n]) [0..<n] ! j)
        [m := f m j]) [0..<n]"
    using Suc by simp
  also have "\<dots> = map (\<lambda>j. map (\<lambda>i. if i < Suc m then f i j else r0 ! j ! i) [0..<n]) [0..<n]"
    using m by (intro map_cong refl nth_equalityI) (auto simp: nth_list_update less_Suc_eq)
  finally show ?case .
qed

lemma Matrix_transpose_square_data:
  fixes a :: "'a::zero Matrix"
  shows "Matrix_transpose n n a =
     Inr \<lparr>Matrix.data = map (\<lambda>j. map (\<lambda>i. Matrix.data a ! i ! j) [0..<n]) [0..<n]\<rparr>"
proof -
  let ?f = "\<lambda>i j. Matrix.data a ! i ! j"
  have inner: "for_loop [0..<n] (\<lambda>j result. store_entry n n result j i (?f i j)) s =
      Inr (fold (\<lambda>j result. set_entry result j i (?f i j)) [0..<n] s)"
    if "i < n" for i and s :: "'a list list"
    by (rule for_loop_total) (use that in \<open>simp add: store_entry_def\<close>)
  have "for_loop [0..<n] (\<lambda>i result.
          for_loop [0..<n] (\<lambda>j result. store_entry n n result j i (?f i j)) result) s =
      Inr (fold (\<lambda>i result. fold (\<lambda>j result. set_entry result j i (?f i j)) [0..<n] result) [0..<n] s)"
    for s :: "'a list list"
    by (rule for_loop_total) (simp add: inner)
  moreover have "fold (\<lambda>i result. fold (\<lambda>j result. set_entry result j i (?f i j)) [0..<n] result)
        [0..<n] (replicate n (replicate n 0)) =
      fold (\<lambda>i r. map (\<lambda>j. (r ! j)[i := ?f i j]) [0..<n]) [0..<n] (replicate n (replicate n 0))
    \<and> length (fold (\<lambda>i r. map (\<lambda>j. (r ! j)[i := ?f i j]) [0..<n]) [0..<n]
        (replicate n (replicate n (0::'a)))) = n"
  proof (rule fold_cong_inv [where P = "\<lambda>s. length s = n"])
    fix i and s :: "'a list list"
    assume "i \<in> set [0..<n]" and s: "length s = n"
    have "fold (\<lambda>j result. set_entry result j i (?f i j)) [0..<n] s =
        map (\<lambda>j. (s ! j)[i := ?f i j]) [0..<n]"
      unfolding set_entry_def
      using fold_update_all [OF s, of "\<lambda>j row. row[i := ?f i j]"] by simp
    then show "fold (\<lambda>j result. set_entry result j i (?f i j)) [0..<n] s =
        map (\<lambda>j. (s ! j)[i := ?f i j]) [0..<n] \<and> length (map (\<lambda>j. (s ! j)[i := ?f i j]) [0..<n]) = n"
      by simp
  qed simp
  moreover have "fold (\<lambda>i r. map (\<lambda>j. (r ! j)[i := ?f i j]) [0..<n]) [0..<n] (replicate n (replicate n 0)) =
      map (\<lambda>j. map (\<lambda>i. ?f i j) [0..<n]) [0..<n]"
    using transpose_columns [of "replicate n (replicate n (0::'a))" n n ?f]
    by (simp add: zeros_ok cong: map_cong)
  ultimately show ?thesis
    by (simp add: Matrix_transpose_def Matrix_default_def)
qed

text \<open>
  On a square matrix \<open>transpose\<close> is what its name says: \<open>result[j][i] = self[i][j]\<close>.
\<close>

lemma Matrix_transpose_square:
  fixes this :: "'a::zero Matrix"
  assumes "Matrix_ok n n this"
  shows "\<exists>result. Matrix_transpose n n this = Inr result \<and> Matrix_ok n n result
     \<and> (\<forall>i<n. \<forall>j<n. Matrix.data result ! j ! i = Matrix.data this ! i ! j)"
  by (simp add: Matrix_transpose_square_data Matrix_ok_def list_all_iff)

text \<open>
  C1 at matrices that are not square. The result of \<open>transpose\<close> is declared with the
  receiver's own shape, so for the 1 x 2 matrix \<open>{{1, 2}}\<close> the loop assigns
  \<^verbatim>\<open>result[1][0]\<close> in a matrix of one row: out of range, and no 2 x 1 matrix is returned.
  The same for a 2 x 3 and for a 2 x 1 matrix. For the square \<open>{{1, 2}, {3, 4}}\<close> the result
  is \<open>{{1, 3}, {2, 4}}\<close>.
\<close>

theorem Matrix_transpose_not_square:
  "Matrix_ok 1 2 \<lparr>Matrix.data = [[1, 2 :: int]]\<rparr>
   \<and> Matrix_transpose 1 2 \<lparr>Matrix.data = [[1, 2 :: int]]\<rparr> = Inl OutOfRange
   \<and> Matrix_ok 2 3 \<lparr>Matrix.data = [[1, 2, 3], [4, 5, 6 :: int]]\<rparr>
   \<and> Matrix_transpose 2 3 \<lparr>Matrix.data = [[1, 2, 3], [4, 5, 6 :: int]]\<rparr> = Inl OutOfRange
   \<and> Matrix_ok 2 1 \<lparr>Matrix.data = [[1], [2 :: int]]\<rparr>
   \<and> Matrix_transpose 2 1 \<lparr>Matrix.data = [[1], [2 :: int]]\<rparr> = Inl OutOfRange
   \<and> Matrix_transpose 2 2 \<lparr>Matrix.data = [[1, 2], [3, 4 :: int]]\<rparr>
        = Inr \<lparr>Matrix.data = [[1, 3], [2, 4]]\<rparr>"
proof -
  have n: "[0..<3] = [0, 1, 2]" "[0..<2] = [0, 1]" "[0..<1] = [0]"
    by (simp_all add: upt_rec numeral_eq_Suc)
  have r: "replicate 2 x = [x, x]" for x :: 'b
    by (simp_all add: numeral_eq_Suc)
  show ?thesis
    by (simp add: Matrix_ok_def Matrix_transpose_def Matrix_default_def store_entry_def
        set_entry_def n r)
qed

section \<open>Compound assignment\<close>

text \<open>
  The compound assignments against the operators that return a new value. They agree
  for every \<^verbatim>\<open>op\<close> when the argument is a vector or a matrix, the receiver itself included
  (\<^verbatim>\<open>x += x\<close>), and when the scalar is an object outside the receiver.
\<close>

lemma Vector_apply_self_agrees:
  fixes this :: "'a::zero Vector"
  assumes "Vector_ok N this"
  shows "Vector_apply_self N this (Distinct other) op = Vector_apply N this other op"
    and "Vector_apply_self N this Receiver op = Vector_apply N this this op"
  using assms
  by (simp_all add: Vector_ok_def Vector_apply_self_data Vector_apply_data Vector_eqI)

lemma Vector_apply_scalar_self_agrees:
  fixes this :: "'a::zero Vector"
  assumes "Vector_ok N this"
  shows "Vector_apply_scalar_self N this (Detached c) op = Vector_apply_scalar N this c op"
  using assms
  by (simp add: Vector_ok_def Vector_apply_scalar_self_Detached Vector_apply_scalar_data Vector_eqI)

lemma Matrix_apply_self_agrees:
  fixes this :: "'a::zero Matrix"
  assumes "Matrix_ok Rows Cols this"
  shows "Matrix_apply_self Rows Cols this (DistinctM other) op = Matrix_apply Rows Cols this other op"
    and "Matrix_apply_self Rows Cols this ReceiverM op = Matrix_apply Rows Cols this this op"
  using assms
  by (simp_all add: Matrix_apply_self_data Matrix_apply_data Matrix_eqI)

lemma Matrix_apply_scalar_self_agrees:
  fixes this :: "'a::zero Matrix"
  assumes "Matrix_ok Rows Cols this"
  shows "Matrix_apply_scalar_self Rows Cols this (DetachedM c) op =
         Matrix_apply_scalar Rows Cols this c op"
  using assms
  by (simp add: Matrix_apply_scalar_self_DetachedM Matrix_apply_scalar_data Matrix_eqI)

lemma Matrix_times_assign_agrees:
  "Matrix_times_assign Rows Cols this (DistinctM other) = Matrix_times Rows Cols this other"
  "Matrix_times_assign Rows Cols this ReceiverM = Matrix_times Rows Cols this this"
  by (simp_all add: Matrix_times_assign_def Matrix_times_def)

text \<open>
  C10 at a scalar argument that is an entry of the receiver. \<^verbatim>\<open>m += m[0][0]\<close> on
  \<open>{{1, 2}, {3, 4}}\<close> leaves \<open>{{2, 4}, {5, 6}}\<close>: the first assignment changes the entry the
  reference reads, and every later entry adds the new value. \<^verbatim>\<open>m + m[0][0]\<close> is
  \<open>{{2, 3}, {4, 5}}\<close>. Likewise \<^verbatim>\<open>v -= v[0]\<close> on \<open>{2, 4, 6}\<close> leaves \<open>{0, 4, 6}\<close>, and
  \<^verbatim>\<open>v - v[0]\<close> is \<open>{0, 2, 4}\<close>.
\<close>

theorem compound_assign_scalar_of_receiver:
  "Matrix_ok 2 2 \<lparr>Matrix.data = [[1, 2], [3, 4 :: int]]\<rparr>
   \<and> Matrix_plus_assign_scalar 2 2 \<lparr>Matrix.data = [[1, 2], [3, 4 :: int]]\<rparr> (Entry 0 0)
        = \<lparr>Matrix.data = [[2, 4], [5, 6]]\<rparr>
   \<and> Matrix_plus_scalar 2 2 \<lparr>Matrix.data = [[1, 2], [3, 4 :: int]]\<rparr>
          (entry_value [[1, 2], [3, 4]] (Entry 0 0))
        = \<lparr>Matrix.data = [[2, 3], [4, 5]]\<rparr>
   \<and> Vector_ok 3 \<lparr>Vector.data = [2, 4, 6 :: int]\<rparr>
   \<and> Vector_minus_assign_scalar 3 \<lparr>Vector.data = [2, 4, 6 :: int]\<rparr> (Component 0)
        = \<lparr>Vector.data = [0, 4, 6]\<rparr>
   \<and> Vector_minus_scalar 3 \<lparr>Vector.data = [2, 4, 6 :: int]\<rparr>
          (scalar_value [2, 4, 6] (Component 0))
        = \<lparr>Vector.data = [0, 2, 4]\<rparr>"
proof -
  have n: "[0..<3] = [0, 1, 2]" "[0..<2] = [0, 1]"
    by (simp_all add: upt_rec numeral_eq_Suc)
  have r: "replicate 3 x = [x, x, x]" "replicate 2 x = [x, x]" for x :: 'b
    by (simp_all add: numeral_eq_Suc)
  have "Matrix_plus_assign_scalar 2 2 \<lparr>Matrix.data = [[1, 2], [3, 4 :: int]]\<rparr> (Entry 0 0)
        = \<lparr>Matrix.data = [[2, 4], [5, 6]]\<rparr>"
    by (simp add: Matrix_plus_assign_scalar_def Matrix_apply_scalar_self_def set_entry_def n)
  moreover have "Matrix_plus_scalar 2 2 \<lparr>Matrix.data = [[1, 2], [3, 4 :: int]]\<rparr>
          (entry_value [[1, 2], [3, 4]] (Entry 0 0)) = \<lparr>Matrix.data = [[2, 3], [4, 5]]\<rparr>"
    by (simp add: Matrix_plus_scalar_def Matrix_apply_scalar_def Matrix_default_def set_entry_def n r)
  moreover have "Vector_minus_assign_scalar 3 \<lparr>Vector.data = [2, 4, 6 :: int]\<rparr> (Component 0)
        = \<lparr>Vector.data = [0, 4, 6]\<rparr>"
    by (simp add: Vector_minus_assign_scalar_def Vector_apply_scalar_self_def n)
  moreover have "Vector_minus_scalar 3 \<lparr>Vector.data = [2, 4, 6 :: int]\<rparr>
          (scalar_value [2, 4, 6] (Component 0)) = \<lparr>Vector.data = [0, 2, 4]\<rparr>"
    by (simp add: Vector_minus_scalar_def Vector_apply_scalar_def Vector_default_def n r)
  ultimately show ?thesis
    by (simp add: Matrix_ok_def Vector_ok_def)
qed

end
